theory Spec2Isabelle
  imports Complex_Main
begin

section \<open>Values\<close>

text \<open>
  The extractor handles decoded JSON throughout: the body of a response, the raw company
  records, the query parameters and the flat rows are Python objects built from
  \<^verbatim>\<open>None\<close>, booleans, integers, floats, strings, lists and dictionaries.

  A Python \<^verbatim>\<open>str\<close> is modelled as a \<open>string\<close> whose characters are the code points
  below 256. A float is carried as the real number it denotes (or as one of the three
  non-finite values the decoder accepts); the program never computes with one. A dictionary
  is an association list read with \<open>map_of\<close>: the first binding of a key is the entry of
  the dictionary, and the order of the list is the insertion order.
\<close>

datatype pyfloat = Finite real | PosInf | NegInf | NaN

datatype json =
    JNull
  | JBool bool
  | JInt int
  | JFloat pyfloat
  | JStr string
  | JList "json list"
  | JDict "(string \<times> json) list"

type_synonym pydict = "(string \<times> json) list"

text \<open>
  The exceptions the program raises or lets through. \<open>OpenAPIError\<close> carries the fixed
  text of its message and, where the message is an f-string, the interpolated value as it
  is (rendering a value with \<^verbatim>\<open>str()\<close> is left to the interpreter). The three typed
  upstream errors are subclasses of \<^verbatim>\<open>OpenAPIError\<close> in the source and are kept apart
  here. \<open>AttributeError\<close> is what \<^verbatim>\<open>x.get(...)\<close> raises on a value that is not a
  dictionary; \<open>JSONDecodeError\<close> is what \<^verbatim>\<open>response.json()\<close> raises on a body that is
  not JSON; \<open>TransportError\<close> stands for an exception raised by the HTTP session itself.
\<close>

datatype error =
    ValueError string
  | OpenAPIError string "json option"
  | AuthenticationError string
  | PaymentRequiredError string
  | ValidationError string
  | AttributeError
  | JSONDecodeError
  | TransportError

text \<open>Sequencing of computations that may raise: the first exception wins.\<close>

definition and_then :: "error + 'a \<Rightarrow> ('a \<Rightarrow> error + 'b) \<Rightarrow> error + 'b" where
  "and_then m f = (case m of Inl e \<Rightarrow> Inl e | Inr x \<Rightarrow> f x)"

text \<open>Python's truth value of an object, as \<^verbatim>\<open>not x\<close>, \<^verbatim>\<open>x or y\<close> and \<^verbatim>\<open>if x\<close> read it.\<close>

fun truthy :: "json \<Rightarrow> bool" where
  "truthy JNull = False"
| "truthy (JBool b) = b"
| "truthy (JInt n) = (n \<noteq> 0)"
| "truthy (JFloat (Finite x)) = (x \<noteq> 0)"
| "truthy (JFloat _) = True"
| "truthy (JStr s) = (s \<noteq> [])"
| "truthy (JList xs) = (xs \<noteq> [])"
| "truthy (JDict d) = (d \<noteq> [])"

text \<open>\<^verbatim>\<open>x or y\<close> for a right operand whose evaluation cannot raise.\<close>

definition py_or :: "json \<Rightarrow> json \<Rightarrow> json" where
  "py_or x y = (if truthy x then x else y)"

text \<open>\<^verbatim>\<open>d.get(key, default)\<close> on a dictionary.\<close>

definition dict_get :: "pydict \<Rightarrow> string \<Rightarrow> json \<Rightarrow> json" where
  "dict_get d k dflt = (case map_of d k of None \<Rightarrow> dflt | Some v \<Rightarrow> v)"

text \<open>
  \<^verbatim>\<open>x.get(key, default)\<close> on an arbitrary object: only a dictionary has the method
  (\<^verbatim>\<open>None\<close>, numbers, strings and lists raise \<^verbatim>\<open>AttributeError\<close>).
\<close>

fun py_get_default :: "json \<Rightarrow> string \<Rightarrow> json \<Rightarrow> error + json" where
  "py_get_default (JDict d) k dflt = Inr (dict_get d k dflt)"
| "py_get_default _ k dflt = Inl AttributeError"

text \<open>\<^verbatim>\<open>x.get(key)\<close>: the default is \<^verbatim>\<open>None\<close>.\<close>

definition py_get :: "json \<Rightarrow> string \<Rightarrow> error + json" where
  "py_get x k = py_get_default x k JNull"

section \<open>Strings\<close>

text \<open>
  \<^verbatim>\<open>ch.isdigit()\<close> for a character below U+0100: the ten ASCII digits and the
  superscript digits U+00B2, U+00B3 and U+00B9.
\<close>

definition isdigit :: "char \<Rightarrow> bool" where
  "isdigit c = (let n = (of_char c :: nat)
                in (48 \<le> n \<and> n \<le> 57) \<or> n = 178 \<or> n = 179 \<or> n = 185)"

text \<open>\<^verbatim>\<open>s.isdigit()\<close> on a string: non-empty and every character a digit.\<close>

definition str_isdigit :: "string \<Rightarrow> bool" where
  "str_isdigit s = (s \<noteq> [] \<and> list_all isdigit s)"

text \<open>A decimal digit, the only kind \<^verbatim>\<open>int()\<close> accepts among the characters above.\<close>

definition isdecimal :: "char \<Rightarrow> bool" where
  "isdecimal c = (let n = (of_char c :: nat) in 48 \<le> n \<and> n \<le> 57)"

definition digit_value :: "char \<Rightarrow> int" where
  "digit_value c = int (of_char c) - 48"

definition decimal_value :: "string \<Rightarrow> int" where
  "decimal_value s = foldl (\<lambda>n c. 10 * n + digit_value c) 0 s"

text \<open>
  The interpreter's default limit on the number of digits \<^verbatim>\<open>int()\<close> converts
  (\<^verbatim>\<open>sys.int_max_str_digits\<close>).
\<close>

definition int_max_str_digits :: nat where
  "int_max_str_digits = 4300"

text \<open>
  \<^verbatim>\<open>int(s)\<close> for a string on which \<^verbatim>\<open>s.isdigit()\<close> holds (no sign, blank or underscore):
  \<^verbatim>\<open>ValueError\<close> on a superscript digit and beyond the digit limit.
\<close>

definition py_int :: "string \<Rightarrow> error + int" where
  "py_int s =
     (if list_all isdecimal s \<and> length s \<le> int_max_str_digits
      then Inr (decimal_value s)
      else Inl (ValueError ''invalid literal for int()''))"

text \<open>
  \<^verbatim>\<open>s.upper()\<close>, character by character. Below U+0100 the lower-case letters are
  \<^verbatim>\<open>a\<close> to \<^verbatim>\<open>z\<close> and U+00E0 to U+00FE without the division sign U+00F7, each 32 above its
  capital; the sharp s (U+00DF) becomes \<^verbatim>\<open>SS\<close>. The capitals of U+00B5 and U+00FF lie
  beyond U+00FF and are not represented: the model leaves these two characters as they are.
\<close>

definition upper_char :: "char \<Rightarrow> string" where
  "upper_char c =
     (let n = (of_char c :: nat)
      in if (97 \<le> n \<and> n \<le> 122) \<or> (224 \<le> n \<and> n \<le> 254 \<and> n \<noteq> 247)
         then [char_of (n - 32)]
         else if n = 223 then ''SS''
         else [c])"

definition upper :: "string \<Rightarrow> string" where
  "upper s = concat (map upper_char s)"

section \<open>The client\<close>

subsection \<open>Classification code\<close>

definition sanitize_ateco_code :: "string \<Rightarrow> error + string" where
  "sanitize_ateco_code code =
     (if code = [] then Inl (ValueError ''ATECO code must be provided'')
      else let digits = filter isdigit code
           in if digits = []
              then Inl (ValueError (''ATECO code '' @ [CHR 0x27] @ code @ [CHR 0x27]
                                     @ '' does not contain any digits''))
              else Inr digits)"

subsection \<open>Search parameters\<close>

record SearchParams =
  province :: string
  ateco_code :: string
  data_enrichment :: string
  limit :: int
  activity_status :: "string option"
  dry_run :: bool

definition as_query_params :: "SearchParams \<Rightarrow> int \<Rightarrow> pydict" where
  "as_query_params p skip =
     [(''province'', JStr (upper (province p))),
      (''atecoCode'', JStr (ateco_code p)),
      (''limit'', JInt (limit p)),
      (''skip'', JInt skip)]
     @ (if data_enrichment p \<noteq> [] then [(''dataEnrichment'', JStr (data_enrichment p))] else [])
     @ (case activity_status p of
          None \<Rightarrow> []
        | Some s \<Rightarrow> if s \<noteq> [] then [(''activityStatus'', JStr s)] else [])
     @ (if dry_run p then [(''dryRun'', JInt 1)] else [])"

subsection \<open>Responses and the session\<close>

text \<open>
  What the client reads of a response: the status code, the body text, the decoded body
  (\<open>None\<close> when the body is not JSON) and the text of the \<^verbatim>\<open>HTTPError\<close> that
  \<^verbatim>\<open>raise_for_status()\<close> raises for it.
\<close>

record response =
  status_code :: int
  body_text :: string
  json_body :: "json option"
  http_error_str :: string

text \<open>
  The session answers the \<open>n\<close>-th request of an operation (counted from 0), given its URL
  and query parameters, with a response, or with \<open>None\<close> when \<^verbatim>\<open>session.get\<close> raises an
  exception of its own. Since the client is deterministic, any stateful server is such a
  function for the run at hand. The request timeout and headers are constants of the client
  and are not passed.
\<close>

type_synonym session = "nat \<Rightarrow> string \<Rightarrow> pydict \<Rightarrow> response option"

record client =
  base_url :: string
  timeout :: int
  session :: session

definition PRODUCTION_BASE_URL :: string where
  "PRODUCTION_BASE_URL = ''https://company.openapi.com''"

definition SANDBOX_BASE_URL :: string where
  "SANDBOX_BASE_URL = ''https://test.company.openapi.com''"

text \<open>The constructor \<^verbatim>\<open>OpenAPICompanyClient(token, sandbox=, timeout=, session=)\<close>.\<close>

definition new_client :: "string \<Rightarrow> bool \<Rightarrow> int \<Rightarrow> session \<Rightarrow> error + client" where
  "new_client token sandbox tmo sess =
     (if token = [] then Inl (ValueError ''A valid OpenAPI bearer token must be provided'')
      else Inr \<lparr>base_url = (if sandbox then SANDBOX_BASE_URL else PRODUCTION_BASE_URL),
                timeout = tmo, session = sess\<rparr>)"

text \<open>\<^verbatim>\<open>response.raise_for_status()\<close> raises for the client and server error codes.\<close>

definition raises_for_status :: "response \<Rightarrow> bool" where
  "raises_for_status r = (400 \<le> status_code r \<and> status_code r < 600)"

text \<open>\<^verbatim>\<open>OpenAPICompanyClient._get\<close>, as the \<open>n\<close>-th request of the running operation.\<close>

definition client_get :: "client \<Rightarrow> nat \<Rightarrow> string \<Rightarrow> pydict \<Rightarrow> error + json" where
  "client_get c n path params =
     (case session c n (base_url c @ path) params of
        None \<Rightarrow> Inl TransportError
      | Some r \<Rightarrow>
          if status_code r = 401 then Inl (AuthenticationError ''Unauthorized: check your bearer token'')
          else if status_code r = 402 then Inl (PaymentRequiredError ''Insufficient credits on OpenAPI account'')
          else if status_code r = 422 then Inl (ValidationError ''Request rejected: invalid parameters'')
          else if raises_for_status r
          then Inl (OpenAPIError ''OpenAPI request failed: ''
                      (Some (JStr (if body_text r \<noteq> [] then body_text r else http_error_str r))))
          else (case json_body r of
                  None \<Rightarrow> Inl JSONDecodeError
                | Some payload \<Rightarrow>
                    and_then (py_get_default payload ''success'' (JBool False)) (\<lambda>success.
                      if \<not> truthy success
                      then and_then (py_get payload ''message'') (\<lambda>message.
                             Inl (OpenAPIError ''OpenAPI reported an error: ''
                                    (Some (py_or message (JStr ''Unknown error'')))))
                      else Inr payload)))"

subsection \<open>Pagination\<close>

text \<open>
  \<^verbatim>\<open>search_companies\<close> is a generator. The model is what a consumer that drains it
  sees: the records yielded, in order, how the iteration ended, and the query parameters
  of every request sent, in order. The loop \<^verbatim>\<open>while True\<close> does not end when the upstream
  keeps answering with full pages, so the model takes a bound \<open>fuel\<close> on the number of
  page requests; \<open>OutOfFuel\<close> says that the bound was reached with the loop still running.
\<close>

datatype outcome = Finished | Raised error | OutOfFuel

record search_result =
  yielded :: "json list"
  outcome :: outcome
  calls :: "pydict list"

definition data_not_a_list :: string where
  "data_not_a_list =
     ''Unexpected response structure: '' @ [CHR 0x27] @ ''data'' @ [CHR 0x27] @ '' is not a list''"

text \<open>
  The inner loop over one page,
  \<^verbatim>\<open>for item in data: yield item; fetched += 1; if max_records is not None and fetched >= max_records: return\<close>:
  the items yielded, the new count, and whether the generator returned.
\<close>

fun yield_items :: "int option \<Rightarrow> int \<Rightarrow> json list \<Rightarrow> json list \<times> int \<times> bool" where
  "yield_items max_records fetched [] = ([], fetched, False)"
| "yield_items max_records fetched (item # rest) =
     (if (case max_records of None \<Rightarrow> False | Some m \<Rightarrow> fetched + 1 \<ge> m)
      then ([item], fetched + 1, True)
      else (case yield_items max_records (fetched + 1) rest of
              (ys, fetched', returned) \<Rightarrow> (item # ys, fetched', returned)))"

text \<open>A result that stops at the request \<open>q\<close>, and one that goes on after it.\<close>

definition stop_after :: "pydict \<Rightarrow> json list \<Rightarrow> outcome \<Rightarrow> search_result" where
  "stop_after q ys out = \<lparr>yielded = ys, outcome = out, calls = [q]\<rparr>"

definition continue_after :: "pydict \<Rightarrow> json list \<Rightarrow> search_result \<Rightarrow> search_result" where
  "continue_after q ys r = \<lparr>yielded = ys @ yielded r, outcome = outcome r, calls = q # calls r\<rparr>"

text \<open>
  The body of \<^verbatim>\<open>while True\<close>, with the loop variables \<open>fetched\<close> and \<open>skip\<close> and the
  number \<open>n\<close> of requests sent so far.
\<close>

fun search_loop ::
  "nat \<Rightarrow> client \<Rightarrow> SearchParams \<Rightarrow> int option \<Rightarrow> int \<Rightarrow> int \<Rightarrow> nat \<Rightarrow> search_result" where
  "search_loop 0 c params max_records fetched skip n =
     \<lparr>yielded = [], outcome = OutOfFuel, calls = []\<rparr>"
| "search_loop (Suc fuel) c params max_records fetched skip n =
     (let q = as_query_params params skip in
      case client_get c n ''/IT-search'' q of
        Inl e \<Rightarrow> stop_after q [] (Raised e)
      | Inr payload \<Rightarrow>
          (case py_get_default payload ''data'' (JList []) of
             Inl e \<Rightarrow> stop_after q [] (Raised e)
           | Inr (JList data) \<Rightarrow>
               if data = [] then stop_after q [] Finished
               else (case yield_items max_records fetched data of
                       (ys, fetched', returned) \<Rightarrow>
                         if returned then stop_after q ys Finished
                         else if int (length data) < limit params then stop_after q ys Finished
                         else continue_after q ys
                                (search_loop fuel c params max_records fetched'
                                   (skip + limit params) (Suc n)))
           | Inr _ \<Rightarrow> stop_after q [] (Raised (OpenAPIError data_not_a_list None))))"

definition search_companies ::
  "client \<Rightarrow> nat \<Rightarrow> string \<Rightarrow> string \<Rightarrow> string \<Rightarrow> int \<Rightarrow> int option \<Rightarrow> string option
     \<Rightarrow> search_result" where
  "search_companies c fuel prov code enrichment page_limit max_records status =
     (if page_limit \<le> 0
      then \<lparr>yielded = [], outcome = Raised (ValueError ''limit must be greater than zero''),
             calls = []\<rparr>
      else (case sanitize_ateco_code code of
              Inl e \<Rightarrow> \<lparr>yielded = [], outcome = Raised e, calls = []\<rparr>
            | Inr sanitized_code \<Rightarrow>
                search_loop fuel c
                  \<lparr>province = prov, ateco_code = sanitized_code, data_enrichment = enrichment,
                    limit = min page_limit 100, activity_status = status, dry_run = False\<rparr>
                  max_records 0 0 0))"

subsection \<open>Dry run\<close>

definition total_missing :: string where
  "total_missing =
     ''Dry run response did not include '' @ [CHR 0x27] @ ''metadata.total'' @ [CHR 0x27]"

text \<open>
  \<^verbatim>\<open>isinstance(total, int)\<close>: a Python \<^verbatim>\<open>bool\<close> is an \<^verbatim>\<open>int\<close>. \<^verbatim>\<open>dry_run_count\<close>
  returns the object \<^verbatim>\<open>total\<close> itself in this case, so \<^verbatim>\<open>True\<close> and \<^verbatim>\<open>False\<close> are
  returned as they are.
\<close>

definition is_py_int :: "json \<Rightarrow> bool" where
  "is_py_int v = (case v of JInt _ \<Rightarrow> True | JBool _ \<Rightarrow> True | _ \<Rightarrow> False)"

definition dry_run_count :: "client \<Rightarrow> string \<Rightarrow> string \<Rightarrow> string option \<Rightarrow> error + json" where
  "dry_run_count c prov code status =
     and_then (sanitize_ateco_code code) (\<lambda>sanitized_code.
     and_then (client_get c 0 ''/IT-search''
                 (as_query_params
                    \<lparr>province = prov, ateco_code = sanitized_code, data_enrichment = [],
                      limit = 1, activity_status = status, dry_run = True\<rparr> 0)) (\<lambda>payload.
     and_then (py_get payload ''metadata'') (\<lambda>m.
     and_then (py_get (py_or m (JDict [])) ''total'') (\<lambda>total.
       if is_py_int total then Inr total
       else (case total of
               JStr s \<Rightarrow>
                 if str_isdigit s then and_then (py_int s) (\<lambda>n. Inr (JInt n))
                 else Inl (OpenAPIError total_missing None)
             | _ \<Rightarrow> Inl (OpenAPIError total_missing None))))))"

section \<open>The exporter\<close>

definition STANDARD_HEADERS :: "string list" where
  "STANDARD_HEADERS =
     [''id'', ''company_name'', ''vat_code'', ''tax_code'', ''activity_status'', ''cciaa'',
      ''rea_code'', ''start_date'', ''registration_date'', ''address'', ''street_number'',
      ''toponym'', ''town'', ''province'', ''zip_code'', ''town_code'', ''region'',
      ''latitude'', ''longitude'', ''ateco_code'', ''ateco_description'', ''ateco_secondary'',
      ''ateco2022_code'', ''ateco2022_description'', ''pec'', ''sdi_code'',
      ''sdi_code_updated_at'', ''last_update_timestamp'', ''creation_timestamp'', ''turnover'',
      ''turnover_year'', ''turnover_range'', ''share_capital'', ''net_worth'',
      ''enterprise_size'', ''employees'', ''employee_range'', ''employee_trend'', ''website'',
      ''email'', ''telephone'', ''fax'']"

subsection \<open>Helpers\<close>

text \<open>
  \<^verbatim>\<open>_nested_get(data, *path)\<close>: the loop over the path leaves with \<^verbatim>\<open>None\<close> at the first
  value that is not a dictionary.
\<close>

fun nested_get :: "json \<Rightarrow> string list \<Rightarrow> json" where
  "nested_get current [] = current"
| "nested_get (JDict d) (key # path) = nested_get (dict_get d key JNull) path"
| "nested_get _ (key # path) = JNull"

text \<open>
  \<^verbatim>\<open>_safe_coordinate(address, index)\<close>; the two call sites pass the indices 1 and 0.
  A decoded body holds lists, never tuples.
\<close>

definition safe_coordinate :: "json \<Rightarrow> nat \<Rightarrow> error + json" where
  "safe_coordinate address index =
     and_then (py_get address ''gps'') (\<lambda>g.
     and_then (py_get (py_or g (JDict [])) ''coordinates'') (\<lambda>coords.
       case coords of
         JList cs \<Rightarrow> if length cs > index then Inr (cs ! index) else Inr JNull
       | _ \<Rightarrow> Inr JNull))"

text \<open>
  \<^verbatim>\<open>isinstance(timestamp, (int, float))\<close>, which holds of a \<^verbatim>\<open>bool\<close> too.
\<close>

definition is_py_number :: "json \<Rightarrow> bool" where
  "is_py_number v = (case v of JInt _ \<Rightarrow> True | JBool _ \<Rightarrow> True | JFloat _ \<Rightarrow> True | _ \<Rightarrow> False)"

text \<open>
  \<^verbatim>\<open>_timestamp_to_iso(timestamp)\<close>. The conversion
  \<^verbatim>\<open>datetime.fromtimestamp(timestamp, tz=timezone.utc).isoformat()\<close> is the standard library's
  and is a parameter \<open>isofmt\<close> of the model: \<open>isofmt t\<close> is the text for the number \<open>t\<close>, or
  \<open>None\<close> when the conversion raises \<^verbatim>\<open>OverflowError\<close>, \<^verbatim>\<open>OSError\<close> or \<^verbatim>\<open>ValueError\<close>
  (the only exceptions it has for a number, all three caught by the source).
\<close>

definition timestamp_to_iso :: "(json \<Rightarrow> string option) \<Rightarrow> json \<Rightarrow> json" where
  "timestamp_to_iso isofmt timestamp =
     (if is_py_number timestamp
      then (case isofmt timestamp of Some s \<Rightarrow> JStr s | None \<Rightarrow> timestamp)
      else timestamp)"

text \<open>
  A dictionary display \<^verbatim>\<open>{k1: e1, k2: e2, ...}\<close> evaluates its values in order; the first
  one that raises ends the evaluation.
\<close>

fun dict_display :: "(string \<times> (error + json)) list \<Rightarrow> error + pydict" where
  "dict_display [] = Inr []"
| "dict_display ((k, e) # rest) =
     and_then e (\<lambda>v. and_then (dict_display rest) (\<lambda>d. Inr ((k, v) # d)))"

subsection \<open>Flattening\<close>

text \<open>
  \<^verbatim>\<open>(record.get("balanceSheets") or {}).get("last") or (record.get("ecofin") or {})\<close> and
  \<^verbatim>\<open>employees_block.get("employee") or ecofin.get("employees")\<close>: the right operand is
  evaluated only when the left one is falsy.
\<close>

definition or_else :: "error + json \<Rightarrow> error + json \<Rightarrow> error + json" where
  "or_else l r = and_then l (\<lambda>x. if truthy x then Inr x else r)"

definition flatten_company_record :: "(json \<Rightarrow> string option) \<Rightarrow> json \<Rightarrow> error + pydict" where
  "flatten_company_record isofmt record =
     and_then (py_get record ''address'') (\<lambda>a.
     and_then (py_get (py_or a (JDict [])) ''registeredOffice'') (\<lambda>ro.
     let address = py_or ro (JDict []) in
     and_then (py_get record ''atecoClassification'') (\<lambda>ac.
     and_then (py_get (py_or ac (JDict [])) ''ateco'') (\<lambda>a08.
     let ateco = py_or a08 (JDict []) in
     and_then (py_get (py_or ac (JDict [])) ''secondaryAteco'') (\<lambda>ateco_secondary.
     and_then (py_get (py_or ac (JDict [])) ''ateco2022'') (\<lambda>a22.
     let ateco2022 = py_or a22 (JDict []) in
     and_then (py_get record ''balanceSheets'') (\<lambda>bs.
     and_then (or_else (py_get (py_or bs (JDict [])) ''last'')
                 (and_then (py_get record ''ecofin'') (\<lambda>ef. Inr (py_or ef (JDict []))))) (\<lambda>ecofin.
     and_then (py_get record ''employees'') (\<lambda>em.
     let employees_block = py_or em (JDict []) in
     dict_display
       [(''id'', py_get record ''id''),
        (''company_name'', py_get record ''companyName''),
        (''vat_code'', py_get record ''vatCode''),
        (''tax_code'', py_get record ''taxCode''),
        (''activity_status'', py_get record ''activityStatus''),
        (''cciaa'', py_get record ''cciaa''),
        (''rea_code'', py_get record ''reaCode''),
        (''start_date'', py_get record ''startDate''),
        (''registration_date'', py_get record ''registrationDate''),
        (''address'', py_get address ''streetName''),
        (''street_number'', py_get address ''streetNumber''),
        (''toponym'', py_get address ''toponym''),
        (''town'', py_get address ''town''),
        (''province'', py_get address ''province''),
        (''zip_code'', py_get address ''zipCode''),
        (''town_code'', py_get address ''townCode''),
        (''region'', Inr (nested_get address [''region'', ''description''])),
        (''latitude'', safe_coordinate address 1),
        (''longitude'', safe_coordinate address 0),
        (''ateco_code'', py_get ateco ''code''),
        (''ateco_description'', py_get ateco ''description''),
        (''ateco_secondary'', Inr ateco_secondary),
        (''ateco2022_code'', py_get ateco2022 ''code''),
        (''ateco2022_description'', py_get ateco2022 ''description''),
        (''pec'', py_get record ''pec''),
        (''sdi_code'', py_get record ''sdiCode''),
        (''sdi_code_updated_at'',
           and_then (py_get record ''sdiCodeTimestamp'') (\<lambda>t. Inr (timestamp_to_iso isofmt t))),
        (''last_update_timestamp'',
           and_then (py_get record ''lastUpdateTimestamp'') (\<lambda>t. Inr (timestamp_to_iso isofmt t))),
        (''creation_timestamp'',
           and_then (py_get record ''creationTimestamp'') (\<lambda>t. Inr (timestamp_to_iso isofmt t))),
        (''turnover'', py_get ecofin ''turnover''),
        (''turnover_year'', py_get ecofin ''turnoverYear''),
        (''turnover_range'', Inr (nested_get ecofin [''turnoverRange'', ''description''])),
        (''share_capital'', py_get ecofin ''shareCapital''),
        (''net_worth'', py_get ecofin ''netWorth''),
        (''enterprise_size'', Inr (nested_get ecofin [''enterpriseSize'', ''description''])),
        (''employees'',
           or_else (py_get employees_block ''employee'') (py_get ecofin ''employees'')),
        (''employee_range'', Inr (nested_get employees_block [''employeeRange'', ''description''])),
        (''employee_trend'', py_get employees_block ''employeeTrend''),
        (''website'', Inr (nested_get record [''webAndSocial'', ''website''])),
        (''email'', Inr (nested_get record [''mail'', ''email''])),
        (''telephone'', Inr (nested_get record [''contacts'', ''telephoneNumber''])),
        (''fax'', Inr (nested_get record [''contacts'', ''fax'']))])))))))))"

subsection \<open>Writing the sheet\<close>

text \<open>
  The workbook as saved: the title of its one sheet and the rows appended to it, each the
  list of its cell values. The spreadsheet library's own conversion of a cell value (it
  raises \<^verbatim>\<open>ValueError\<close> on a list or a dictionary), the column widths and the file system
  are outside the model: the model says what the export does up to the first
  \<^verbatim>\<open>ws.append\<close>, and nothing is stated here about the sheet beyond that.
\<close>

record worksheet =
  title :: string
  rows :: "json list list"

text \<open>The list comprehension \<^verbatim>\<open>[flatten_company_record(record) for record in records]\<close>.\<close>

fun flatten_all :: "(json \<Rightarrow> string option) \<Rightarrow> json list \<Rightarrow> error + pydict list" where
  "flatten_all isofmt [] = Inr []"
| "flatten_all isofmt (record # records) =
     and_then (flatten_company_record isofmt record) (\<lambda>row.
     and_then (flatten_all isofmt records) (\<lambda>rs. Inr (row # rs)))"

definition export_to_excel :: "(json \<Rightarrow> string option) \<Rightarrow> json list \<Rightarrow> error + worksheet \<times> int" where
  "export_to_excel isofmt records =
     and_then (flatten_all isofmt records) (\<lambda>flat_rows.
       Inr (\<lparr>title = ''Aziende'',
              rows = map JStr STANDARD_HEADERS
                     # map (\<lambda>row. map (\<lambda>header. dict_get row header JNull) STANDARD_HEADERS)
                         flat_rows\<rparr>,
            int (length flat_rows)))"

section \<open>Fixtures and predicates of the statements\<close>

text \<open>
  The test suite's \<^verbatim>\<open>DummyResponse(200, payload)\<close>, a successful page body, its
  \<^verbatim>\<open>DummySession\<close> (which answers from a list and raises once the list is used up) and
  \<^verbatim>\<open>make_client\<close>.
\<close>

definition ok_response :: "json \<Rightarrow> response" where
  "ok_response payload =
     \<lparr>status_code = 200, body_text = [], json_body = Some payload, http_error_str = []\<rparr>"

definition page :: "json list \<Rightarrow> json" where
  "page items = JDict [(''success'', JBool True), (''data'', JList items)]"

definition dummy_session :: "response list \<Rightarrow> session" where
  "dummy_session rs n url params = (if n < length rs then Some (rs ! n) else None)"

definition make_client :: "session \<Rightarrow> client" where
  "make_client s = \<lparr>base_url = SANDBOX_BASE_URL, timeout = 30, session = s\<rparr>"

text \<open>A status for which \<^verbatim>\<open>_get\<close> goes on to read the body.\<close>

definition status_ok :: "response \<Rightarrow> bool" where
  "status_ok r =
     (status_code r \<noteq> 401 \<and> status_code r \<noteq> 402 \<and> status_code r \<noteq> 422 \<and> \<not> raises_for_status r)"

text \<open>A value on which \<^verbatim>\<open>(x or {}).get(...)\<close> does not raise: a dictionary or a falsy value.\<close>

definition mapping_or_falsy :: "json \<Rightarrow> bool" where
  "mapping_or_falsy v = (case v of JDict _ \<Rightarrow> True | _ \<Rightarrow> \<not> truthy v)"

text \<open>\<^verbatim>\<open>(x or {}).get(key)\<close> for such a value.\<close>

definition sub :: "json \<Rightarrow> string \<Rightarrow> json" where
  "sub v k = (case v of JDict d \<Rightarrow> dict_get d k JNull | _ \<Rightarrow> JNull)"

text \<open>
  What \<^verbatim>\<open>_safe_coordinate\<close> reads for a registered office \<open>ro\<close> whose GPS block is such
  a value: the entry \<open>i\<close> of \<^verbatim>\<open>gps.coordinates\<close> when that is a list long enough, else
  \<^verbatim>\<open>None\<close>.
\<close>

definition coordinate :: "json \<Rightarrow> nat \<Rightarrow> json" where
  "coordinate ro i =
     (case sub (sub ro ''gps'') ''coordinates'' of
        JList cs \<Rightarrow> if i < length cs then cs ! i else JNull
      | _ \<Rightarrow> JNull)"

text \<open>
  The nested blocks of a raw record that the flattener reads with \<^verbatim>\<open>.get\<close> are
  dictionaries, falsy or absent: the registered office and its GPS block, the ATECO
  classification with its two codes, the balance-sheet block (the last balance sheet, or
  else the \<^verbatim>\<open>ecofin\<close> block) and the employees block.
\<close>

definition well_shaped :: "pydict \<Rightarrow> bool" where
  "well_shaped r =
     (let a = dict_get r ''address'' JNull;
          ro = sub a ''registeredOffice'';
          ac = dict_get r ''atecoClassification'' JNull;
          bs = dict_get r ''balanceSheets'' JNull;
          lst = sub bs ''last''
      in mapping_or_falsy a \<and> mapping_or_falsy ro \<and> mapping_or_falsy (sub ro ''gps'')
         \<and> mapping_or_falsy ac \<and> mapping_or_falsy (sub ac ''ateco'')
         \<and> mapping_or_falsy (sub ac ''ateco2022'')
         \<and> mapping_or_falsy bs
         \<and> (if truthy lst then mapping_or_falsy lst
             else mapping_or_falsy (dict_get r ''ecofin'' JNull))
         \<and> mapping_or_falsy (dict_get r ''employees'' JNull))"

text \<open>The columns the flattener fills from the registered-office address.\<close>

definition address_fields :: "string list" where
  "address_fields =
     [''address'', ''street_number'', ''toponym'', ''town'', ''province'', ''zip_code'',
      ''town_code'', ''region'', ''latitude'', ''longitude'']"

text \<open>A computation that returns, or raises \<^verbatim>\<open>AttributeError\<close> and nothing else.\<close>

definition attr_or_value :: "error + 'a \<Rightarrow> bool" where
  "attr_or_value m = (case m of Inl e \<Rightarrow> e = AttributeError | Inr _ \<Rightarrow> True)"

section \<open>The classification-code sanitizer\<close>

text \<open>
  C6. For every input string with at least one digit character, \<open>sanitize_ateco_code\<close>
  returns the digit characters of the input, in their order; for every input without a
  digit character (the empty string among them) it raises \<^verbatim>\<open>ValueError\<close>, the
  input-validation error.
\<close>

theorem sanitize_ateco_code_digits:
  "((\<exists>c \<in> set code. isdigit c) \<longrightarrow> sanitize_ateco_code code = Inr (filter isdigit code))
   \<and> ((\<forall>c \<in> set code. \<not> isdigit c) \<longrightarrow>
        (\<exists>msg. sanitize_ateco_code code = Inl (ValueError msg)))"
  by (auto simp: sanitize_ateco_code_def Let_def filter_empty_conv)

theorem sanitize_ateco_code_digits_witness:
  "sanitize_ateco_code ''10.71'' = Inr ''1071''
   \<and> (\<exists>msg. sanitize_ateco_code ''abc'' = Inl (ValueError msg))
   \<and> (\<exists>msg. sanitize_ateco_code [] = Inl (ValueError msg))"
  using sanitize_ateco_code_digits [of "''10.71''"] sanitize_ateco_code_digits [of "''abc''"]
    sanitize_ateco_code_digits [of "[]"]
  by (simp add: isdigit_def)

section \<open>Pagination\<close>

lemma client_get_ok:
  "session c n (base_url c @ path) q = Some (ok_response (page items)) \<Longrightarrow>
   client_get c n path q = Inr (page items)"
  by (simp add: client_get_def ok_response_def page_def raises_for_status_def and_then_def
      dict_get_def)

lemma sanitize_ok:
  "\<exists>ch \<in> set code. isdigit ch \<Longrightarrow> sanitize_ateco_code code = Inr (filter isdigit code)"
  by (auto simp: sanitize_ateco_code_def Let_def filter_empty_conv)

lemma page_data: "py_get_default (page items) ''data'' dflt = Inr (JList items)"
  by (simp add: page_def dict_get_def)

lemma two_le_fuel: "2 \<le> fuel \<Longrightarrow> \<exists>k. fuel = Suc (Suc k)"
  by (metis Suc_le_D numeral_2_eq_2 Suc_le_mono)

text \<open>
  C1. With page size 2, an upstream whose first two answers are the pages \<open>[a, b]\<close> and
  \<open>[d]\<close> (whatever it would answer afterwards) makes the iterator yield exactly \<open>a\<close>,
  \<open>b\<close>, \<open>d\<close> in this order and end normally after two requests: the short second page
  ends the iteration, so neither the empty third page nor a fourth one is requested. Any
  bound of at least two requests suffices.
\<close>

theorem search_companies_three_records:
  assumes p1: "\<And>url q. session c 0 url q = Some (ok_response (page [a, b]))"
    and p2: "\<And>url q. session c 1 url q = Some (ok_response (page [d]))"
    and code: "\<exists>ch \<in> set code. isdigit ch"
    and fuel: "2 \<le> fuel"
  shows "yielded (search_companies c fuel prov code enr 2 None st) = [a, b, d]
       \<and> outcome (search_companies c fuel prov code enr 2 None st) = Finished
       \<and> length (calls (search_companies c fuel prov code enr 2 None st)) = 2"
proof -
  obtain k where k: "fuel = Suc (Suc k)"
    using two_le_fuel [OF fuel] by blast
  have g0: "\<And>path q. client_get c 0 path q = Inr (page [a, b])"
    by (rule client_get_ok) (rule p1)
  have g1: "\<And>path q. client_get c (Suc 0) path q = Inr (page [d])"
    by (rule client_get_ok) (simp add: p2 [unfolded One_nat_def])
  show ?thesis
    unfolding search_companies_def k
    by (simp add: sanitize_ok [OF code] g0 g1 page_data
        stop_after_def continue_after_def Let_def)
qed

theorem search_companies_three_records_witness:
  "yielded (search_companies
      (make_client (dummy_session
         [ok_response (page [JDict [(''id'', JStr ''A'')], JDict [(''id'', JStr ''B'')]]),
          ok_response (page [JDict [(''id'', JStr ''C'')]]),
          ok_response (page [])]))
      3 ''VR'' ''10.71'' ''Advanced'' 2 None None)
   = [JDict [(''id'', JStr ''A'')], JDict [(''id'', JStr ''B'')], JDict [(''id'', JStr ''C'')]]
   \<and> outcome (search_companies
      (make_client (dummy_session
         [ok_response (page [JDict [(''id'', JStr ''A'')], JDict [(''id'', JStr ''B'')]]),
          ok_response (page [JDict [(''id'', JStr ''C'')]]),
          ok_response (page [])]))
      3 ''VR'' ''10.71'' ''Advanced'' 2 None None) = Finished
   \<and> length (calls (search_companies
      (make_client (dummy_session
         [ok_response (page [JDict [(''id'', JStr ''A'')], JDict [(''id'', JStr ''B'')]]),
          ok_response (page [JDict [(''id'', JStr ''C'')]]),
          ok_response (page [])]))
      3 ''VR'' ''10.71'' ''Advanced'' 2 None None)) = 2"
  using search_companies_three_records [of
      "make_client (dummy_session
         [ok_response (page [JDict [(''id'', JStr ''A'')], JDict [(''id'', JStr ''B'')]]),
          ok_response (page [JDict [(''id'', JStr ''C'')]]),
          ok_response (page [])])"
      "JDict [(''id'', JStr ''A'')]" "JDict [(''id'', JStr ''B'')]" "JDict [(''id'', JStr ''C'')]"
      "''10.71''" 3 "''VR''" "''Advanced''" None]
  by (simp add: make_client_def dummy_session_def isdigit_def)

text \<open>
  C2. With page size 5 and \<^verbatim>\<open>max_records=6\<close>, an upstream that answers every request with
  a full page of five records makes the iterator yield exactly six records (the first page
  and the first record of the second) and end normally after exactly two requests. Any
  bound of at least two requests suffices.
\<close>

theorem search_companies_max_records:
  assumes pages: "\<And>n url q. session c n url q = Some (ok_response (page (pages n)))"
    and full: "\<And>n. length (pages n) = 5"
    and code: "\<exists>ch \<in> set code. isdigit ch"
    and fuel: "2 \<le> fuel"
  shows "yielded (search_companies c fuel prov code enr 5 (Some 6) st) = pages 0 @ [hd (pages 1)]
       \<and> length (yielded (search_companies c fuel prov code enr 5 (Some 6) st)) = 6
       \<and> outcome (search_companies c fuel prov code enr 5 (Some 6) st) = Finished
       \<and> length (calls (search_companies c fuel prov code enr 5 (Some 6) st)) = 2"
proof -
  obtain k where k: "fuel = Suc (Suc k)"
    using two_le_fuel [OF fuel] by blast
  have five: "\<And>xs :: json list. length xs = 5 \<Longrightarrow> \<exists>a b c d e. xs = [a, b, c, d, e]"
    by (simp add: numeral_eq_Suc length_Suc_conv) blast
  obtain a1 a2 a3 a4 a5 where p0: "pages 0 = [a1, a2, a3, a4, a5]"
    using five [OF full [of 0]] by blast
  obtain b1 b2 b3 b4 b5 where p1: "pages (Suc 0) = [b1, b2, b3, b4, b5]"
    using five [OF full [of "Suc 0"]] by blast
  have g: "\<And>n path q. client_get c n path q = Inr (page (pages n))"
    by (rule client_get_ok) (rule pages)
  show ?thesis
    unfolding search_companies_def k
    by (simp add: sanitize_ok [OF code] g page_data p0 p1
        stop_after_def continue_after_def Let_def)
qed

theorem search_companies_max_records_witness:
  "length (yielded (search_companies
      (make_client (\<lambda>n url q. Some (ok_response (page
         [JDict [(''id'', JStr ''0'')], JDict [(''id'', JStr ''1'')], JDict [(''id'', JStr ''2'')],
          JDict [(''id'', JStr ''3'')], JDict [(''id'', JStr ''4'')]]))))
      10 ''VR'' ''1071'' ''Advanced'' 5 (Some 6) None)) = 6
   \<and> length (calls (search_companies
      (make_client (\<lambda>n url q. Some (ok_response (page
         [JDict [(''id'', JStr ''0'')], JDict [(''id'', JStr ''1'')], JDict [(''id'', JStr ''2'')],
          JDict [(''id'', JStr ''3'')], JDict [(''id'', JStr ''4'')]]))))
      10 ''VR'' ''1071'' ''Advanced'' 5 (Some 6) None)) = 2"
  using search_companies_max_records [of
      "make_client (\<lambda>n url q. Some (ok_response (page
         [JDict [(''id'', JStr ''0'')], JDict [(''id'', JStr ''1'')], JDict [(''id'', JStr ''2'')],
          JDict [(''id'', JStr ''3'')], JDict [(''id'', JStr ''4'')]])))"
      "\<lambda>n. [JDict [(''id'', JStr ''0'')], JDict [(''id'', JStr ''1'')], JDict [(''id'', JStr ''2'')],
          JDict [(''id'', JStr ''3'')], JDict [(''id'', JStr ''4'')]]"
      "''1071''" 10 "''VR''" "''Advanced''" None]
  by (simp add: make_client_def isdigit_def)

lemma query_limit: "map_of (as_query_params p skip) ''limit'' = Some (JInt (limit p))"
  by (simp add: as_query_params_def)

lemma search_loop_calls_limit:
  "\<forall>q \<in> set (calls (search_loop fuel c params mx fetched skip n)).
     map_of q ''limit'' = Some (JInt (limit params))"
proof (induction fuel arbitrary: fetched skip n)
  case 0
  show ?case by simp
next
  case (Suc fuel)
  show ?case
    using Suc.IH
    by (simp add: query_limit Let_def stop_after_def continue_after_def
        split: sum.split json.split prod.split)
qed

lemma search_loop_first_call:
  "\<exists>rest. calls (search_loop (Suc fuel) c params mx fetched skip n)
           = as_query_params params skip # rest"
  by (simp add: Let_def stop_after_def continue_after_def
      split: sum.split json.split prod.split)

text \<open>
  C3, as amended. A page size of zero or less is refused: the iterator raises
  \<^verbatim>\<open>ValueError\<close> before any request is sent. A page size of one or more is capped at 100:
  every request sent carries \<open>limit = min page_limit 100\<close>, a value between 1 and 100, and
  with a classification code that has a digit the first request is sent with it.
\<close>

theorem search_companies_page_size:
  "(page_limit \<le> 0 \<longrightarrow>
      search_companies c fuel prov code enr page_limit mx st
      = \<lparr>yielded = [], outcome = Raised (ValueError ''limit must be greater than zero''),
          calls = []\<rparr>)
   \<and> (0 < page_limit \<longrightarrow>
        1 \<le> min page_limit 100 \<and> min page_limit 100 \<le> 100
        \<and> (\<forall>q \<in> set (calls (search_companies c fuel prov code enr page_limit mx st)).
             map_of q ''limit'' = Some (JInt (min page_limit 100))))
   \<and> (0 < page_limit \<and> (\<exists>ch \<in> set code. isdigit ch) \<and> 0 < fuel \<longrightarrow>
        (\<exists>q rest. calls (search_companies c fuel prov code enr page_limit mx st) = q # rest
                 \<and> map_of q ''limit'' = Some (JInt (min page_limit 100))))"
proof (intro conjI impI)
  assume "page_limit \<le> 0"
  then show "search_companies c fuel prov code enr page_limit mx st
      = \<lparr>yielded = [], outcome = Raised (ValueError ''limit must be greater than zero''),
          calls = []\<rparr>"
    by (simp add: search_companies_def)
next
  assume "0 < page_limit"
  then show "1 \<le> min page_limit 100" by simp
next
  show "min page_limit 100 \<le> 100" by simp
next
  assume pos: "0 < page_limit"
  show "\<forall>q \<in> set (calls (search_companies c fuel prov code enr page_limit mx st)).
             map_of q ''limit'' = Some (JInt (min page_limit 100))"
  proof (cases "sanitize_ateco_code code")
    case (Inl e)
    then show ?thesis using pos by (simp add: search_companies_def)
  next
    case (Inr digits)
    show ?thesis
      using pos Inr
        search_loop_calls_limit [of fuel c
          "\<lparr>province = prov, ateco_code = digits, data_enrichment = enr,
            limit = min page_limit 100, activity_status = st, dry_run = False\<rparr>" mx 0 0 0]
      by (simp add: search_companies_def)
  qed
next
  assume h: "0 < page_limit \<and> (\<exists>ch \<in> set code. isdigit ch) \<and> 0 < fuel"
  then obtain k where k: "fuel = Suc k" by (cases fuel) auto
  from h have s: "sanitize_ateco_code code = Inr (filter isdigit code)"
    by (auto simp: sanitize_ateco_code_def Let_def filter_empty_conv)
  show "\<exists>q rest. calls (search_companies c fuel prov code enr page_limit mx st) = q # rest
                 \<and> map_of q ''limit'' = Some (JInt (min page_limit 100))"
    using h search_loop_first_call [of k c
          "\<lparr>province = prov, ateco_code = filter isdigit code, data_enrichment = enr,
            limit = min page_limit 100, activity_status = st, dry_run = False\<rparr>" mx 0 0 0]
    by (auto simp: search_companies_def s k query_limit simp del: search_loop.simps)
qed

text \<open>
  The claim as stated fails: the page size 0 is not raised to 1, the call fails and no
  request is sent.
\<close>

theorem search_companies_page_size_counterexample:
  "search_companies (make_client (dummy_session [ok_response (page [JDict [(''id'', JStr ''A'')]])]))
     1 ''VR'' ''1071'' ''Advanced'' 0 None None
   = \<lparr>yielded = [], outcome = Raised (ValueError ''limit must be greater than zero''),
       calls = []\<rparr>"
  by (simp add: search_companies_def)

theorem search_companies_page_size_witness:
  "search_companies (make_client (dummy_session [ok_response (page [JDict [(''id'', JStr ''A'')]])]))
     3 ''VR'' ''1071'' ''Advanced'' (- 5) None None
   = \<lparr>yielded = [], outcome = Raised (ValueError ''limit must be greater than zero''),
       calls = []\<rparr>
   \<and> (\<exists>q rest. calls (search_companies
          (make_client (dummy_session [ok_response (page [JDict [(''id'', JStr ''A'')]])]))
          3 ''VR'' ''1071'' ''Advanced'' 250 None None) = q # rest
        \<and> map_of q ''limit'' = Some (JInt 100))"
  using search_companies_page_size [of "- 5"
      "make_client (dummy_session [ok_response (page [JDict [(''id'', JStr ''A'')]])])"
      3 "''VR''" "''1071''" "''Advanced''" None None]
    search_companies_page_size [of 250
      "make_client (dummy_session [ok_response (page [JDict [(''id'', JStr ''A'')]])])"
      3 "''VR''" "''1071''" "''Advanced''" None None]
  by (simp add: isdigit_def)

section \<open>Response validation\<close>

text \<open>
  C9. A response with a successful status whose body is an object without the key
  \<^verbatim>\<open>success\<close> makes \<^verbatim>\<open>_get\<close> raise the generic \<^verbatim>\<open>OpenAPIError\<close> with the body's message,
  exactly as for the same body with \<^verbatim>\<open>success: false\<close> added; without a \<^verbatim>\<open>message\<close>
  key the message is \<^verbatim>\<open>Unknown error\<close>. The body is not returned.
\<close>

theorem client_get_missing_success:
  assumes "session c n (base_url c @ path) q = Some r"
    and "session c' n' (base_url c' @ path') q'
         = Some (r\<lparr>json_body := Some (JDict ((''success'', JBool False) # p))\<rparr>)"
    and "status_ok r"
    and "json_body r = Some (JDict p)"
    and "map_of p ''success'' = None"
  shows "client_get c n path q
         = Inl (OpenAPIError ''OpenAPI reported an error: ''
                  (Some (py_or (dict_get p ''message'' JNull) (JStr ''Unknown error''))))
       \<and> client_get c n path q = client_get c' n' path' q'
       \<and> (map_of p ''message'' = None \<longrightarrow>
            client_get c n path q
            = Inl (OpenAPIError ''OpenAPI reported an error: '' (Some (JStr ''Unknown error''))))"
  using assms
  by (simp add: client_get_def status_ok_def and_then_def dict_get_def py_get_def py_or_def
      raises_for_status_def)

theorem client_get_missing_success_witness:
  "client_get
     (make_client (dummy_session
        [\<lparr>status_code = 200, body_text = [], json_body = Some (JDict [(''data'', JList [])]),
          http_error_str = []\<rparr>]))
     0 ''/IT-search'' []
   = Inl (OpenAPIError ''OpenAPI reported an error: '' (Some (JStr ''Unknown error'')))
   \<and> client_get
     (make_client (dummy_session
        [\<lparr>status_code = 200, body_text = [], json_body = Some (JDict [(''data'', JList [])]),
          http_error_str = []\<rparr>]))
     0 ''/IT-search'' []
   = client_get
     (make_client (dummy_session
        [\<lparr>status_code = 200, body_text = [],
          json_body = Some (JDict [(''success'', JBool False), (''data'', JList [])]),
          http_error_str = []\<rparr>]))
     0 ''/IT-search'' []"
proof -
  let ?r = "\<lparr>status_code = 200, body_text = [], json_body = Some (JDict [(''data'', JList [])]),
          http_error_str = []\<rparr>"
  let ?r' = "\<lparr>status_code = 200, body_text = [],
          json_body = Some (JDict [(''success'', JBool False), (''data'', JList [])]),
          http_error_str = []\<rparr>"
  have a: "session (make_client (dummy_session [?r])) 0
             (base_url (make_client (dummy_session [?r])) @ ''/IT-search'') [] = Some ?r"
    by (simp add: make_client_def dummy_session_def)
  have b: "session (make_client (dummy_session [?r'])) 0
             (base_url (make_client (dummy_session [?r'])) @ ''/IT-search'') []
           = Some (?r\<lparr>json_body := Some (JDict ((''success'', JBool False) # [(''data'', JList [])]))\<rparr>)"
    by (simp add: make_client_def dummy_session_def)
  have c: "status_ok ?r"
    by (simp add: status_ok_def raises_for_status_def)
  have d: "json_body ?r = Some (JDict [(''data'', JList [])])"
    by simp
  have e: "map_of [(''data'', JList [])] ''success'' = None"
    by simp
  have f: "map_of [(''data'', JList [])] ''message'' = None"
    by simp
  from client_get_missing_success [OF a b c d e] f show ?thesis
    by blast
qed

section \<open>A page without data\<close>

lemma client_get_payload:
  "client_get c n path q = Inr payload \<Longrightarrow> \<exists>p. payload = JDict p"
  by (cases payload)
     (auto simp: client_get_def and_then_def py_get_def
       split: option.splits if_splits sum.splits)

lemma py_get_default_error:
  "py_get_default x k dflt = Inl e \<Longrightarrow> e = AttributeError"
  by (cases x) simp_all

lemma client_get_not_structural:
  "client_get c n path q \<noteq> Inl (OpenAPIError data_not_a_list None)"
  by (auto simp: client_get_def and_then_def py_get_def
       split: option.splits if_splits sum.splits dest: py_get_default_error)

lemma search_loop_structural:
  "outcome (search_loop fuel c params mx fetched skip n)
     = Raised (OpenAPIError data_not_a_list None) \<Longrightarrow>
   \<exists>k p v. k < length (calls (search_loop fuel c params mx fetched skip n))
     \<and> client_get c (n + k) ''/IT-search''
          (calls (search_loop fuel c params mx fetched skip n) ! k) = Inr (JDict p)
     \<and> map_of p ''data'' = Some v \<and> (\<forall>xs. v \<noteq> JList xs)"
proof (induction fuel arbitrary: fetched skip n)
  case 0
  then show ?case by simp
next
  case (Suc fuel)
  let ?q = "as_query_params params skip"
  show ?case
  proof (cases "client_get c n ''/IT-search'' ?q")
    case (Inl e)
    with Suc.prems client_get_not_structural [of c n "''/IT-search''" ?q]
    show ?thesis by (simp add: Let_def stop_after_def)
  next
    case (Inr payload)
    then obtain p where p: "payload = JDict p"
      using client_get_payload by blast
    show ?thesis
    proof (cases "map_of p ''data''")
      case None
      with Suc.prems Inr p show ?thesis
        by (simp add: Let_def stop_after_def dict_get_def)
    next
      case (Some v)
      show ?thesis
      proof (cases "\<exists>xs. v = JList xs")
        case False
        have "calls (search_loop (Suc fuel) c params mx fetched skip n) = [?q]"
          using Inr p Some False
          by (cases v) (simp_all add: Let_def stop_after_def dict_get_def)
        with Inr p Some False show ?thesis
          by (intro exI [of _ 0] exI [of _ p] exI [of _ v]) simp
      next
        case True
        then obtain xs where xs: "v = JList xs" by blast
        show ?thesis
        proof (cases "xs = []")
          case True
          with Suc.prems Inr p Some xs show ?thesis
            by (simp add: Let_def stop_after_def dict_get_def)
        next
          case False
          obtain ys f' ret where y: "yield_items mx fetched xs = (ys, f', ret)"
            by (cases "yield_items mx fetched xs") auto
          show ?thesis
          proof (cases "ret \<or> int (length xs) < limit params")
            case True
            with Suc.prems Inr p Some xs False y show ?thesis
              by (auto simp: Let_def stop_after_def dict_get_def split: if_splits)
          next
            case stop: False
            let ?r = "search_loop fuel c params mx f' (skip + limit params) (Suc n)"
            have eq: "search_loop (Suc fuel) c params mx fetched skip n = continue_after ?q ys ?r"
              using Inr p Some xs False y stop by (simp add: Let_def dict_get_def)
            from Suc.prems eq have "outcome ?r = Raised (OpenAPIError data_not_a_list None)"
              by (simp add: continue_after_def)
            from Suc.IH [OF this] obtain k p' v' where
              k: "k < length (calls ?r)"
              "client_get c (Suc n + k) ''/IT-search'' (calls ?r ! k) = Inr (JDict p')"
              "map_of p' ''data'' = Some v'" "\<forall>xs. v' \<noteq> JList xs"
              by blast
            show ?thesis
              unfolding eq using k
              by (intro exI [of _ "Suc k"] exI [of _ p'] exI [of _ v'])
                 (simp add: continue_after_def)
          qed
        qed
      qed
    qed
  qed
qed

text \<open>
  C10. In any iteration of the pagination loop, a validated page body without the key
  \<^verbatim>\<open>data\<close> ends the iteration normally: nothing more is yielded, nothing is raised and no
  further request is sent. And when draining \<open>search_companies\<close> ends with the structural
  error, one of the requests sent was answered by a validated body whose \<^verbatim>\<open>data\<close> is
  present and is not a list.
\<close>

theorem search_loop_missing_data:
  "(client_get c n ''/IT-search'' (as_query_params params skip) = Inr (JDict p)
      \<and> map_of p ''data'' = None \<longrightarrow>
      search_loop (Suc fuel) c params mx fetched skip n
      = \<lparr>yielded = [], outcome = Finished, calls = [as_query_params params skip]\<rparr>)
   \<and> (outcome (search_companies c fuel prov code enr page_limit mx st)
        = Raised (OpenAPIError data_not_a_list None) \<longrightarrow>
      (\<exists>k pl v. k < length (calls (search_companies c fuel prov code enr page_limit mx st))
         \<and> client_get c k ''/IT-search''
              (calls (search_companies c fuel prov code enr page_limit mx st) ! k)
            = Inr (JDict pl)
         \<and> map_of pl ''data'' = Some v \<and> (\<forall>xs. v \<noteq> JList xs)))"
proof (intro conjI impI)
  assume "client_get c n ''/IT-search'' (as_query_params params skip) = Inr (JDict p)
      \<and> map_of p ''data'' = None"
  then show "search_loop (Suc fuel) c params mx fetched skip n
      = \<lparr>yielded = [], outcome = Finished, calls = [as_query_params params skip]\<rparr>"
    by (simp add: Let_def stop_after_def dict_get_def)
next
  assume raised: "outcome (search_companies c fuel prov code enr page_limit mx st)
        = Raised (OpenAPIError data_not_a_list None)"
  then have pos: "\<not> page_limit \<le> 0"
    by (auto simp: search_companies_def)
  from raised pos obtain digits where d: "sanitize_ateco_code code = Inr digits"
    by (cases "sanitize_ateco_code code")
       (auto simp: search_companies_def sanitize_ateco_code_def Let_def split: if_splits)
  let ?params = "\<lparr>province = prov, ateco_code = digits, data_enrichment = enr,
            limit = min page_limit 100, activity_status = st, dry_run = False\<rparr>"
  have eq: "search_companies c fuel prov code enr page_limit mx st
            = search_loop fuel c ?params mx 0 0 0"
    using pos d by (simp add: search_companies_def)
  show "\<exists>k pl v. k < length (calls (search_companies c fuel prov code enr page_limit mx st))
         \<and> client_get c k ''/IT-search''
              (calls (search_companies c fuel prov code enr page_limit mx st) ! k)
            = Inr (JDict pl)
         \<and> map_of pl ''data'' = Some v \<and> (\<forall>xs. v \<noteq> JList xs)"
    using search_loop_structural [of fuel c ?params mx 0 0 0] raised
    unfolding eq by simp
qed

theorem search_loop_missing_data_witness:
  "search_loop (Suc 0)
     (make_client (dummy_session [ok_response (JDict [(''success'', JBool True)])]))
     \<lparr>province = ''VR'', ateco_code = ''1071'', data_enrichment = ''Advanced'', limit = 100,
       activity_status = None, dry_run = False\<rparr>
     None 0 0 0
   = \<lparr>yielded = [], outcome = Finished,
       calls = [as_query_params
                  \<lparr>province = ''VR'', ateco_code = ''1071'', data_enrichment = ''Advanced'',
                    limit = 100, activity_status = None, dry_run = False\<rparr> 0]\<rparr>
   \<and> (\<exists>k pl v.
         k < length (calls (search_companies
               (make_client (dummy_session
                  [ok_response (JDict [(''success'', JBool True), (''data'', JNull)])]))
               1 ''VR'' ''1071'' ''Advanced'' 100 None None))
       \<and> client_get
            (make_client (dummy_session
               [ok_response (JDict [(''success'', JBool True), (''data'', JNull)])]))
            k ''/IT-search''
            (calls (search_companies
               (make_client (dummy_session
                  [ok_response (JDict [(''success'', JBool True), (''data'', JNull)])]))
               1 ''VR'' ''1071'' ''Advanced'' 100 None None) ! k)
          = Inr (JDict pl)
       \<and> map_of pl ''data'' = Some v \<and> (\<forall>xs. v \<noteq> JList xs))"
proof -
  let ?c = "make_client (dummy_session [ok_response (JDict [(''success'', JBool True)])])"
  let ?c2 = "make_client (dummy_session
                  [ok_response (JDict [(''success'', JBool True), (''data'', JNull)])])"
  let ?p = "\<lparr>province = ''VR'', ateco_code = ''1071'', data_enrichment = ''Advanced'',
             limit = 100, activity_status = None, dry_run = False\<rparr>"
  have a: "client_get ?c 0 ''/IT-search'' (as_query_params ?p 0)
             = Inr (JDict [(''success'', JBool True)])
           \<and> map_of [(''success'', JBool True)] ''data'' = None"
    by (simp add: client_get_def make_client_def dummy_session_def ok_response_def
        raises_for_status_def and_then_def dict_get_def)
  have b: "outcome (search_companies ?c2 1 ''VR'' ''1071'' ''Advanced'' 100 None None)
           = Raised (OpenAPIError data_not_a_list None)"
    by (simp add: search_companies_def sanitize_ateco_code_def isdigit_def client_get_def
        make_client_def dummy_session_def ok_response_def raises_for_status_def and_then_def
        dict_get_def stop_after_def Let_def)
  from search_loop_missing_data [where c = ?c and n = 0 and params = ?p and skip = 0
      and p = "[(''success'', JBool True)]" and fuel = 0 and mx = None and fetched = 0] a
  have first: "search_loop (Suc 0) ?c ?p None 0 0 0
      = \<lparr>yielded = [], outcome = Finished, calls = [as_query_params ?p 0]\<rparr>"
    by blast
  from search_loop_missing_data [where c = ?c2 and fuel = 1 and prov = "''VR''"
      and code = "''1071''" and enr = "''Advanced''" and page_limit = 100 and mx = None
      and st = None] b
  show ?thesis using first by blast
qed

section \<open>Dry run\<close>

lemma sub_get:
  "mapping_or_falsy v \<Longrightarrow> py_get (py_or v (JDict [])) k = Inr (sub v k)"
  by (cases v) (simp_all add: mapping_or_falsy_def py_or_def py_get_def sub_def dict_get_def)

lemma client_get_validated:
  assumes "session c n (base_url c @ path) q = Some r"
    and "status_ok r"
    and "json_body r = Some (JDict p)"
    and "truthy (dict_get p ''success'' (JBool False))"
  shows "client_get c n path q = Inr (JDict p)"
  using assms by (simp add: client_get_def status_ok_def and_then_def)

lemma isdecimal_isdigit: "isdecimal ch \<Longrightarrow> isdigit ch"
  by (simp add: isdecimal_def isdigit_def Let_def)

lemma decimal_str_isdigit: "s \<noteq> [] \<Longrightarrow> list_all isdecimal s \<Longrightarrow> str_isdigit s"
  by (auto simp: str_isdigit_def list_all_iff isdecimal_isdigit)

lemma py_int_not_structural: "py_int s \<noteq> Inl (OpenAPIError m v)"
  by (simp add: py_int_def)

text \<open>
  C5, as amended. For a response that passes validation and whose \<^verbatim>\<open>metadata\<close> is an
  object, falsy or absent, with \<open>tot\<close> the value of \<^verbatim>\<open>metadata.total\<close> (\<^verbatim>\<open>None\<close> when
  absent): the dry run returns \<open>tot\<close> itself when it is an integer (so 42 yields 42), and
  the decimal value when it is a non-empty string of decimal digits within the
  interpreter's digit limit; it fails with the structural error exactly when \<open>tot\<close> is
  neither an integer nor a string on which \<^verbatim>\<open>isdigit()\<close> holds. An absent or non-numeric
  total therefore fails, and so do a float and a signed or fractional numeric string.
\<close>

theorem dry_run_count_total:
  assumes code: "\<exists>ch \<in> set code. isdigit ch"
    and resp: "\<And>url q. session c 0 url q = Some r"
    and ok: "status_ok r"
    and body: "json_body r = Some (JDict p)"
    and succ: "truthy (dict_get p ''success'' (JBool False))"
    and meta: "mapping_or_falsy (dict_get p ''metadata'' JNull)"
    and tot_def: "tot = sub (dict_get p ''metadata'' JNull) ''total''"
  shows "(dry_run_count c prov code st = Inl (OpenAPIError total_missing None))
           = (\<not> is_py_int tot \<and> (\<forall>s. tot = JStr s \<longrightarrow> \<not> str_isdigit s))
       \<and> (is_py_int tot \<longrightarrow> dry_run_count c prov code st = Inr tot)
       \<and> (\<forall>s. tot = JStr s \<and> s \<noteq> [] \<and> list_all isdecimal s \<and> length s \<le> int_max_str_digits
              \<longrightarrow> dry_run_count c prov code st = Inr (JInt (decimal_value s)))"
proof -
  have s: "sanitize_ateco_code code = Inr (filter isdigit code)"
    using code by (auto simp: sanitize_ateco_code_def Let_def filter_empty_conv)
  have g: "\<And>q. client_get c 0 ''/IT-search'' q = Inr (JDict p)"
    by (rule client_get_validated [OF resp ok body succ])
  have m: "py_get (JDict p) ''metadata'' = Inr (dict_get p ''metadata'' JNull)"
    by (simp add: py_get_def)
  have run: "dry_run_count c prov code st =
      (if is_py_int tot then Inr tot
       else (case tot of
               JStr s \<Rightarrow>
                 if str_isdigit s then and_then (py_int s) (\<lambda>n. Inr (JInt n))
                 else Inl (OpenAPIError total_missing None)
             | _ \<Rightarrow> Inl (OpenAPIError total_missing None)))"
    unfolding dry_run_count_def
    by (simp add: s g m sub_get [OF meta] tot_def and_then_def)
  show ?thesis
  proof (cases tot)
    case (JStr x)
    then show ?thesis
      using py_int_not_structural [of x]
      by (auto simp: run is_py_int_def and_then_def py_int_def decimal_str_isdigit
          split: sum.splits)
  qed (simp_all add: run is_py_int_def)
qed

text \<open>
  The claim as stated fails: the total 42.0 is present and numeric, and the dry run fails
  with the structural error.
\<close>

theorem dry_run_count_total_counterexample:
  "dry_run_count
     (make_client (dummy_session
        [ok_response (JDict [(''success'', JBool True), (''data'', JList []),
                            (''metadata'', JDict [(''total'', JFloat (Finite 42))])])]))
     ''VR'' ''1071'' None
   = Inl (OpenAPIError total_missing None)"
  by (simp add: dry_run_count_def sanitize_ateco_code_def isdigit_def client_get_def
      make_client_def dummy_session_def ok_response_def raises_for_status_def and_then_def
      dict_get_def py_get_def py_or_def is_py_int_def)

theorem dry_run_count_total_witness:
  "dry_run_count
     (make_client (dummy_session
        [ok_response (JDict [(''success'', JBool True), (''data'', JList []),
                            (''metadata'', JDict [(''total'', JInt 42)])])]))
     ''VR'' ''1071'' None
   = Inr (JInt 42)
   \<and> dry_run_count
     (make_client (dummy_session
        [ok_response (JDict [(''success'', JBool True), (''data'', JList []),
                            (''metadata'', JDict [(''total'', JStr ''42'')])])]))
     ''VR'' ''1071'' None
   = Inr (JInt 42)
   \<and> dry_run_count
     (make_client (dummy_session
        [ok_response (JDict [(''success'', JBool True), (''data'', JList [])])]))
     ''VR'' ''1071'' None
   = Inl (OpenAPIError total_missing None)"
proof -
  let ?p1 = "[(''success'', JBool True), (''data'', JList []),
              (''metadata'', JDict [(''total'', JInt 42)])]"
  let ?p2 = "[(''success'', JBool True), (''data'', JList []),
              (''metadata'', JDict [(''total'', JStr ''42'')])]"
  let ?p3 = "[(''success'', JBool True), (''data'', JList [])]"
  have code: "\<exists>ch \<in> set ''1071''. isdigit ch"
    by (simp add: isdigit_def)
  have resp: "\<And>p url q. session (make_client (dummy_session [ok_response (JDict p)])) 0 url q
                = Some (ok_response (JDict p))"
    by (simp add: make_client_def dummy_session_def)
  have ok: "\<And>p. status_ok (ok_response (JDict p))"
    by (simp add: status_ok_def ok_response_def raises_for_status_def)
  have body: "\<And>p. json_body (ok_response (JDict p)) = Some (JDict p)"
    by (simp add: ok_response_def)
  have t1: "sub (dict_get ?p1 ''metadata'' JNull) ''total'' = JInt 42"
    by (simp add: sub_def dict_get_def)
  have t2: "sub (dict_get ?p2 ''metadata'' JNull) ''total'' = JStr ''42''"
    by (simp add: sub_def dict_get_def)
  have t3: "sub (dict_get ?p3 ''metadata'' JNull) ''total'' = JNull"
    by (simp add: sub_def dict_get_def)
  have d: "decimal_value ''42'' = 42" "list_all isdecimal ''42''"
    "length ''42'' \<le> int_max_str_digits"
    by (simp_all add: decimal_value_def digit_value_def isdecimal_def int_max_str_digits_def)
  have w1: "dry_run_count (make_client (dummy_session [ok_response (JDict ?p1)]))
              ''VR'' ''1071'' None = Inr (JInt 42)"
    using dry_run_count_total [OF code resp ok body _ _ t1 [symmetric],
        of "''VR''" None]
    by (simp add: dict_get_def mapping_or_falsy_def is_py_int_def)
  have w2: "dry_run_count (make_client (dummy_session [ok_response (JDict ?p2)]))
              ''VR'' ''1071'' None = Inr (JInt 42)"
    using dry_run_count_total [OF code resp ok body _ _ t2 [symmetric],
        of "''VR''" None] d
    by (simp add: dict_get_def mapping_or_falsy_def)
  have w3: "dry_run_count (make_client (dummy_session [ok_response (JDict ?p3)]))
              ''VR'' ''1071'' None = Inl (OpenAPIError total_missing None)"
    using dry_run_count_total [OF code resp ok body _ _ t3 [symmetric],
        of "''VR''" None]
    by (simp add: dict_get_def mapping_or_falsy_def is_py_int_def)
  from w1 w2 w3 show ?thesis by simp
qed

section \<open>Flattening and export\<close>

lemma py_or_dict:
  "mapping_or_falsy v \<Longrightarrow> \<exists>d. py_or v (JDict []) = JDict d \<and> (\<forall>k. sub v k = dict_get d k JNull)"
  by (cases v) (auto simp: mapping_or_falsy_def py_or_def sub_def dict_get_def)

lemma nested_get_two:
  "nested_get (JDict d) [k1, k2] = sub (dict_get d k1 JNull) k2"
  by (cases "dict_get d k1 JNull") (simp_all add: sub_def)

lemma py_get_dict: "py_get (JDict d) k = Inr (dict_get d k JNull)"
  by (simp add: py_get_def)

lemma sub_dict: "sub (JDict d) k = dict_get d k JNull"
  by (simp add: sub_def)

lemma and_then_Inr: "and_then (Inr x) f = f x"
  by (simp add: and_then_def)

lemma or_else_Inr: "or_else (Inr x) (Inr y) = Inr (py_or x y)"
  by (simp add: or_else_def and_then_def py_or_def)

lemma safe_coordinate_dict:
  assumes "mapping_or_falsy (dict_get d ''gps'' JNull)"
  shows "safe_coordinate (JDict d) i = Inr (coordinate (JDict d) i)"
  unfolding safe_coordinate_def coordinate_def
  by (simp add: py_get_dict sub_get [OF assms] and_then_def sub_def split: json.split)

lemma coordinate_cong:
  "(\<And>k. sub x k = sub y k) \<Longrightarrow> coordinate x i = coordinate y i"
  by (simp add: coordinate_def)

lemma flatten_well_shaped:
  assumes ws: "well_shaped r"
  shows "\<exists>flat. flatten_company_record isofmt (JDict r) = Inr flat
     \<and> map fst flat = STANDARD_HEADERS
     \<and> map_of flat ''id'' = Some (dict_get r ''id'' JNull)
     \<and> map_of flat ''address'' = Some (sub (sub (dict_get r ''address'' JNull) ''registeredOffice'') ''streetName'')
     \<and> map_of flat ''street_number'' = Some (sub (sub (dict_get r ''address'' JNull) ''registeredOffice'') ''streetNumber'')
     \<and> map_of flat ''toponym'' = Some (sub (sub (dict_get r ''address'' JNull) ''registeredOffice'') ''toponym'')
     \<and> map_of flat ''town'' = Some (sub (sub (dict_get r ''address'' JNull) ''registeredOffice'') ''town'')
     \<and> map_of flat ''province'' = Some (sub (sub (dict_get r ''address'' JNull) ''registeredOffice'') ''province'')
     \<and> map_of flat ''zip_code'' = Some (sub (sub (dict_get r ''address'' JNull) ''registeredOffice'') ''zipCode'')
     \<and> map_of flat ''town_code'' = Some (sub (sub (dict_get r ''address'' JNull) ''registeredOffice'') ''townCode'')
     \<and> map_of flat ''region'' = Some (sub (sub (sub (dict_get r ''address'' JNull) ''registeredOffice'') ''region'') ''description'')
     \<and> map_of flat ''latitude'' = Some (coordinate (sub (dict_get r ''address'' JNull) ''registeredOffice'') 1)
     \<and> map_of flat ''longitude'' = Some (coordinate (sub (dict_get r ''address'' JNull) ''registeredOffice'') 0)"
proof -
  let ?a = "dict_get r ''address'' JNull"
  let ?ro = "sub ?a ''registeredOffice''"
  let ?ac = "dict_get r ''atecoClassification'' JNull"
  let ?bs = "dict_get r ''balanceSheets'' JNull"
  let ?lst = "sub ?bs ''last''"
  let ?ef = "dict_get r ''ecofin'' JNull"
  let ?em = "dict_get r ''employees'' JNull"
  from ws have c: "mapping_or_falsy ?a" "mapping_or_falsy ?ro" "mapping_or_falsy (sub ?ro ''gps'')"
    "mapping_or_falsy ?ac" "mapping_or_falsy (sub ?ac ''ateco'')"
    "mapping_or_falsy (sub ?ac ''ateco2022'')" "mapping_or_falsy ?bs"
    "if truthy ?lst then mapping_or_falsy ?lst else mapping_or_falsy ?ef"
    "mapping_or_falsy ?em"
    by (simp_all add: well_shaped_def Let_def)
  obtain ad where ad: "py_or ?ro (JDict []) = JDict ad" "\<And>k. sub ?ro k = dict_get ad k JNull"
    using py_or_dict [OF c(2)] by blast
  obtain atd where atd: "py_or (sub ?ac ''ateco'') (JDict []) = JDict atd"
    using py_or_dict [OF c(5)] by blast
  obtain a22 where a22: "py_or (sub ?ac ''ateco2022'') (JDict []) = JDict a22"
    using py_or_dict [OF c(6)] by blast
  obtain emd where emd: "py_or ?em (JDict []) = JDict emd"
    using py_or_dict [OF c(9)] by blast
  obtain ed where ed: "py_or ?lst (py_or ?ef (JDict [])) = JDict ed"
  proof (cases "truthy ?lst")
    case True
    with c(8) have "mapping_or_falsy ?lst" by simp
    from py_or_dict [OF this] True that show ?thesis by (auto simp: py_or_def)
  next
    case False
    with c(8) have "mapping_or_falsy ?ef" by simp
    from py_or_dict [OF this] False that show ?thesis by (auto simp: py_or_def)
  qed
  have gps: "mapping_or_falsy (dict_get ad ''gps'' JNull)"
    using c(3) ad(2) by simp
  have reg: "nested_get (JDict ad) [''region'', ''description''] = sub (sub ?ro ''region'') ''description''"
    by (simp add: nested_get_two ad(2) del: nested_get.simps)
  have flat: "flatten_company_record isofmt (JDict r) = Inr
       [(''id'', dict_get r ''id'' JNull),
        (''company_name'', dict_get r ''companyName'' JNull),
        (''vat_code'', dict_get r ''vatCode'' JNull),
        (''tax_code'', dict_get r ''taxCode'' JNull),
        (''activity_status'', dict_get r ''activityStatus'' JNull),
        (''cciaa'', dict_get r ''cciaa'' JNull),
        (''rea_code'', dict_get r ''reaCode'' JNull),
        (''start_date'', dict_get r ''startDate'' JNull),
        (''registration_date'', dict_get r ''registrationDate'' JNull),
        (''address'', dict_get ad ''streetName'' JNull),
        (''street_number'', dict_get ad ''streetNumber'' JNull),
        (''toponym'', dict_get ad ''toponym'' JNull),
        (''town'', dict_get ad ''town'' JNull),
        (''province'', dict_get ad ''province'' JNull),
        (''zip_code'', dict_get ad ''zipCode'' JNull),
        (''town_code'', dict_get ad ''townCode'' JNull),
        (''region'', nested_get (JDict ad) [''region'', ''description'']),
        (''latitude'', coordinate (JDict ad) 1),
        (''longitude'', coordinate (JDict ad) 0),
        (''ateco_code'', dict_get atd ''code'' JNull),
        (''ateco_description'', dict_get atd ''description'' JNull),
        (''ateco_secondary'', sub ?ac ''secondaryAteco''),
        (''ateco2022_code'', dict_get a22 ''code'' JNull),
        (''ateco2022_description'', dict_get a22 ''description'' JNull),
        (''pec'', dict_get r ''pec'' JNull),
        (''sdi_code'', dict_get r ''sdiCode'' JNull),
        (''sdi_code_updated_at'', timestamp_to_iso isofmt (dict_get r ''sdiCodeTimestamp'' JNull)),
        (''last_update_timestamp'', timestamp_to_iso isofmt (dict_get r ''lastUpdateTimestamp'' JNull)),
        (''creation_timestamp'', timestamp_to_iso isofmt (dict_get r ''creationTimestamp'' JNull)),
        (''turnover'', dict_get ed ''turnover'' JNull),
        (''turnover_year'', dict_get ed ''turnoverYear'' JNull),
        (''turnover_range'', nested_get (JDict ed) [''turnoverRange'', ''description'']),
        (''share_capital'', dict_get ed ''shareCapital'' JNull),
        (''net_worth'', dict_get ed ''netWorth'' JNull),
        (''enterprise_size'', nested_get (JDict ed) [''enterpriseSize'', ''description'']),
        (''employees'', py_or (dict_get emd ''employee'' JNull) (dict_get ed ''employees'' JNull)),
        (''employee_range'', nested_get (JDict emd) [''employeeRange'', ''description'']),
        (''employee_trend'', dict_get emd ''employeeTrend'' JNull),
        (''website'', nested_get (JDict r) [''webAndSocial'', ''website'']),
        (''email'', nested_get (JDict r) [''mail'', ''email'']),
        (''telephone'', nested_get (JDict r) [''contacts'', ''telephoneNumber'']),
        (''fax'', nested_get (JDict r) [''contacts'', ''fax''])]"
    unfolding flatten_company_record_def
    by (simp only: py_get_dict and_then_Inr or_else_Inr sub_get [OF c(1)] sub_get [OF c(4)]
        sub_get [OF c(7)] Let_def ad(1) atd a22 emd ed safe_coordinate_dict [OF gps]
        dict_display.simps)
  have co: "\<And>i. coordinate ?ro i = coordinate (JDict ad) i"
    by (rule coordinate_cong) (simp add: ad(2) sub_dict)
  show ?thesis
    unfolding flat
    by (simp add: STANDARD_HEADERS_def ad(2) reg co del: nested_get.simps)
qed

lemma and_then_Inl: "and_then (Inl e) f = Inl e"
  by (simp add: and_then_def)

lemma aov_Inr: "attr_or_value (Inr x)"
  by (simp add: attr_or_value_def)

lemma aov_py_get: "attr_or_value (py_get x k)"
  by (cases x) (simp_all add: attr_or_value_def py_get_def)

lemma aov_and_then:
  "attr_or_value m \<Longrightarrow> (\<And>x. attr_or_value (f x)) \<Longrightarrow> attr_or_value (and_then m f)"
  by (cases m) (simp_all add: attr_or_value_def and_then_def)

lemma aov_or_else:
  "attr_or_value l \<Longrightarrow> attr_or_value r \<Longrightarrow> attr_or_value (or_else l r)"
  unfolding or_else_def by (rule aov_and_then) (simp_all add: aov_Inr)

lemma aov_safe_coordinate: "attr_or_value (safe_coordinate a i)"
  unfolding safe_coordinate_def
  by (intro aov_and_then aov_py_get) (simp add: attr_or_value_def split: json.split)

lemma aov_timestamp:
  "attr_or_value (and_then (py_get x k) (\<lambda>t. Inr (timestamp_to_iso isofmt t)))"
  by (intro aov_and_then aov_py_get aov_Inr)

lemmas aov = aov_Inr aov_py_get aov_or_else aov_safe_coordinate aov_timestamp

lemma dict_display_raises:
  "list_all (\<lambda>kv. attr_or_value (snd kv)) xs \<Longrightarrow> (k, Inl AttributeError) \<in> set xs \<Longrightarrow>
   dict_display xs = Inl AttributeError"
proof (induction xs)
  case Nil
  then show ?case by simp
next
  case (Cons kv xs)
  obtain k' v where kv: "kv = (k', v)" by (cases kv)
  show ?case
  proof (cases v)
    case (Inl e)
    with Cons.prems kv have "e = AttributeError" by (simp add: attr_or_value_def)
    with Inl kv show ?thesis by (simp add: and_then_Inl)
  next
    case (Inr x)
    with Cons.prems kv have "(k, Inl AttributeError) \<in> set xs" by auto
    with Cons have "dict_display xs = Inl AttributeError" by simp
    with Inr kv show ?thesis by (simp add: and_then_Inr and_then_Inl)
  qed
qed

lemma py_get_raises:
  "\<not> mapping_or_falsy v \<Longrightarrow> py_get (py_or v (JDict [])) k = Inl AttributeError"
  by (cases v) (simp_all add: mapping_or_falsy_def py_or_def py_get_def)

lemma safe_coordinate_raises:
  assumes "mapping_or_falsy ro" and "\<not> mapping_or_falsy (sub ro ''gps'')"
  shows "safe_coordinate (py_or ro (JDict [])) i = Inl AttributeError"
  unfolding safe_coordinate_def
  by (simp add: sub_get [OF assms(1)] and_then_Inr py_get_raises [OF assms(2)] and_then_Inl)

lemma or_else_Inl: "or_else (Inl e) r = Inl e"
  by (simp add: or_else_def and_then_Inl)

lemma ecofin_raises:
  assumes "\<not> (if truthy lst then mapping_or_falsy lst else mapping_or_falsy ef)"
  shows "py_get (py_or lst (py_or ef (JDict []))) k = Inl AttributeError"
proof (cases "truthy lst")
  case True
  with assms have "\<not> mapping_or_falsy lst" by simp
  then have "py_get lst k = Inl AttributeError"
    by (cases lst) (simp_all add: mapping_or_falsy_def py_get_def)
  with True show ?thesis by (simp add: py_or_def)
next
  case False
  with assms have "\<not> mapping_or_falsy ef" by simp
  from py_get_raises [OF this] False show ?thesis by (simp add: py_or_def)
qed

text \<open>
  With the three blocks read before the dictionary display in shape, flattening is the
  display of entries that can only raise \<^verbatim>\<open>AttributeError\<close>; the entries listed are the
  first reads of the remaining blocks.
\<close>

lemma flatten_entries:
  assumes a: "mapping_or_falsy (dict_get r ''address'' JNull)"
    and ac: "mapping_or_falsy (dict_get r ''atecoClassification'' JNull)"
    and bs: "mapping_or_falsy (dict_get r ''balanceSheets'' JNull)"
  shows "\<exists>entries.
      flatten_company_record isofmt (JDict r) = dict_display entries
    \<and> list_all (\<lambda>kv. attr_or_value (snd kv)) entries
    \<and> (''address'', py_get (py_or (sub (dict_get r ''address'' JNull) ''registeredOffice'')
                               (JDict [])) ''streetName'') \<in> set entries
    \<and> (''latitude'', safe_coordinate (py_or (sub (dict_get r ''address'' JNull) ''registeredOffice'')
                               (JDict [])) 1) \<in> set entries
    \<and> (''ateco_code'', py_get (py_or (sub (dict_get r ''atecoClassification'' JNull) ''ateco'')
                               (JDict [])) ''code'') \<in> set entries
    \<and> (''ateco2022_code'', py_get (py_or (sub (dict_get r ''atecoClassification'' JNull) ''ateco2022'')
                               (JDict [])) ''code'') \<in> set entries
    \<and> (''turnover'', py_get (py_or (sub (dict_get r ''balanceSheets'' JNull) ''last'')
                                 (py_or (dict_get r ''ecofin'' JNull) (JDict []))) ''turnover'')
        \<in> set entries
    \<and> (''employee_trend'', py_get (py_or (dict_get r ''employees'' JNull) (JDict []))
                               ''employeeTrend'') \<in> set entries"
  unfolding flatten_company_record_def
  apply (simp only: py_get_dict and_then_Inr or_else_Inr sub_get [OF a] sub_get [OF ac]
      sub_get [OF bs] Let_def)
  apply (rule exI)
  apply (rule conjI, rule refl)
  apply (rule conjI)
   apply (simp add: aov del: nested_get.simps)
  apply (simp del: nested_get.simps)
  done

text \<open>
  The flattener returns a row exactly for the records whose nested blocks are objects,
  falsy or absent; for every other record it raises \<^verbatim>\<open>AttributeError\<close>.
\<close>

lemma flatten_not_well_shaped:
  assumes nws: "\<not> well_shaped r"
  shows "flatten_company_record isofmt (JDict r) = Inl AttributeError"
proof -
  let ?a = "dict_get r ''address'' JNull"
  let ?ro = "sub ?a ''registeredOffice''"
  let ?ac = "dict_get r ''atecoClassification'' JNull"
  let ?bs = "dict_get r ''balanceSheets'' JNull"
  let ?lst = "sub ?bs ''last''"
  let ?ef = "dict_get r ''ecofin'' JNull"
  let ?em = "dict_get r ''employees'' JNull"
  show ?thesis
  proof (cases "mapping_or_falsy ?a \<and> mapping_or_falsy ?ac \<and> mapping_or_falsy ?bs")
    case False
    then consider "\<not> mapping_or_falsy ?a"
      | "mapping_or_falsy ?a" "\<not> mapping_or_falsy ?ac"
      | "mapping_or_falsy ?a" "mapping_or_falsy ?ac" "\<not> mapping_or_falsy ?bs"
      by blast
    then show ?thesis
    proof cases
      case 1
      show ?thesis
        unfolding flatten_company_record_def
        by (simp only: py_get_dict and_then_Inr py_get_raises [OF 1] and_then_Inl)
    next
      case 2
      show ?thesis
        unfolding flatten_company_record_def
        by (simp only: py_get_dict and_then_Inr sub_get [OF 2(1)] Let_def
            py_get_raises [OF 2(2)] and_then_Inl)
    next
      case 3
      show ?thesis
        unfolding flatten_company_record_def
        by (simp only: py_get_dict and_then_Inr sub_get [OF 3(1)] sub_get [OF 3(2)] Let_def
            py_get_raises [OF 3(3)] or_else_Inl and_then_Inl)
    qed
  next
    case True
    then have a: "mapping_or_falsy ?a" and ac: "mapping_or_falsy ?ac"
      and bs: "mapping_or_falsy ?bs"
      by simp_all
    from flatten_entries [OF a ac bs, of isofmt] obtain entries where
      e: "flatten_company_record isofmt (JDict r) = dict_display entries"
        "list_all (\<lambda>kv. attr_or_value (snd kv)) entries"
      and m: "(''address'', py_get (py_or ?ro (JDict [])) ''streetName'') \<in> set entries"
        "(''latitude'', safe_coordinate (py_or ?ro (JDict [])) 1) \<in> set entries"
        "(''ateco_code'', py_get (py_or (sub ?ac ''ateco'') (JDict [])) ''code'') \<in> set entries"
        "(''ateco2022_code'', py_get (py_or (sub ?ac ''ateco2022'') (JDict [])) ''code'')
           \<in> set entries"
        "(''turnover'', py_get (py_or ?lst (py_or ?ef (JDict []))) ''turnover'') \<in> set entries"
        "(''employee_trend'', py_get (py_or ?em (JDict [])) ''employeeTrend'') \<in> set entries"
      by blast
    from nws a ac bs consider "\<not> mapping_or_falsy ?ro"
      | "mapping_or_falsy ?ro" "\<not> mapping_or_falsy (sub ?ro ''gps'')"
      | "\<not> mapping_or_falsy (sub ?ac ''ateco'')"
      | "\<not> mapping_or_falsy (sub ?ac ''ateco2022'')"
      | "\<not> (if truthy ?lst then mapping_or_falsy ?lst else mapping_or_falsy ?ef)"
      | "\<not> mapping_or_falsy ?em"
      unfolding well_shaped_def Let_def by blast
    then have "\<exists>k. (k, Inl AttributeError) \<in> set entries"
    proof cases
      case 1
      from m(1) show ?thesis unfolding py_get_raises [OF 1] by blast
    next
      case 2
      from m(2) show ?thesis unfolding safe_coordinate_raises [OF 2] by blast
    next
      case 3
      from m(3) show ?thesis unfolding py_get_raises [OF 3] by blast
    next
      case 4
      from m(4) show ?thesis unfolding py_get_raises [OF 4] by blast
    next
      case 5
      from m(5) show ?thesis unfolding ecofin_raises [OF 5] by blast
    next
      case 6
      from m(6) show ?thesis unfolding py_get_raises [OF 6] by blast
    qed
    then show ?thesis
      using dict_display_raises [OF e(2)] e(1) by auto
  qed
qed

lemma flatten_returns_iff:
  "(\<exists>flat. flatten_company_record isofmt (JDict r) = Inr flat) = well_shaped r"
  using flatten_well_shaped [of r isofmt] flatten_not_well_shaped [of r isofmt]
  by (cases "well_shaped r") auto

text \<open>
  The address columns of a record whose nested blocks are objects, falsy or absent: when
  the registered office carries \<^verbatim>\<open>gps.coordinates = [x, y]\<close>, flattening returns a row with
  latitude \<open>y\<close> (index 1) and longitude \<open>x\<close> (index 0); when the record has no
  \<^verbatim>\<open>address\<close> key at all, flattening returns a row whose \<^verbatim>\<open>address\<close> and every other
  address-derived column is \<^verbatim>\<open>None\<close>.
\<close>

lemma flatten_address_fields:
  "(dict_get r ''address'' JNull = JDict a
      \<and> dict_get a ''registeredOffice'' JNull = JDict ro
      \<and> dict_get ro ''gps'' JNull = JDict g
      \<and> dict_get g ''coordinates'' JNull = JList [x, y]
      \<and> well_shaped r \<longrightarrow>
      (\<exists>flat. flatten_company_record isofmt (JDict r) = Inr flat
         \<and> map_of flat ''latitude'' = Some y \<and> map_of flat ''longitude'' = Some x))
   \<and> (map_of r ''address'' = None \<and> well_shaped r \<longrightarrow>
      (\<exists>flat. flatten_company_record isofmt (JDict r) = Inr flat
         \<and> (\<forall>k \<in> set address_fields. map_of flat k = Some JNull)))"
proof (intro conjI impI)
  assume h: "dict_get r ''address'' JNull = JDict a
      \<and> dict_get a ''registeredOffice'' JNull = JDict ro
      \<and> dict_get ro ''gps'' JNull = JDict g
      \<and> dict_get g ''coordinates'' JNull = JList [x, y]
      \<and> well_shaped r"
  then have ws: "well_shaped r" by simp
  from h have "coordinate (sub (dict_get r ''address'' JNull) ''registeredOffice'') 1 = y"
    "coordinate (sub (dict_get r ''address'' JNull) ''registeredOffice'') 0 = x"
    by (simp_all add: coordinate_def sub_dict)
  with flatten_well_shaped [OF ws, of isofmt]
  show "\<exists>flat. flatten_company_record isofmt (JDict r) = Inr flat
         \<and> map_of flat ''latitude'' = Some y \<and> map_of flat ''longitude'' = Some x"
    by auto
next
  assume h: "map_of r ''address'' = None \<and> well_shaped r"
  then have ws: "well_shaped r" by simp
  from h have a: "dict_get r ''address'' JNull = JNull"
    by (simp add: dict_get_def)
  have s: "\<And>k. sub JNull k = JNull"
    by (simp add: sub_def)
  have c: "\<And>i. coordinate JNull i = JNull"
    by (simp add: coordinate_def s)
  from flatten_well_shaped [OF ws, of isofmt]
  show "\<exists>flat. flatten_company_record isofmt (JDict r) = Inr flat
         \<and> (\<forall>k \<in> set address_fields. map_of flat k = Some JNull)"
    by (auto simp: a s c address_fields_def)
qed

lemma flatten_address_fields_example:
  "(\<exists>flat. flatten_company_record (\<lambda>t. None)
       (JDict [(''id'', JStr ''123''), (''companyName'', JStr ''Example SRL''),
               (''address'', JDict [(''registeredOffice'',
                  JDict [(''streetName'', JStr ''Via Roma 1''), (''town'', JStr ''Verona''),
                         (''gps'', JDict [(''coordinates'',
                            JList [JFloat (Finite 10), JFloat (Finite 45)])]),
                         (''region'', JDict [(''description'', JStr ''Veneto'')])])]),
               (''employees'', JDict [(''employee'', JInt 12)])]) = Inr flat
      \<and> map_of flat ''latitude'' = Some (JFloat (Finite 45))
      \<and> map_of flat ''longitude'' = Some (JFloat (Finite 10)))
   \<and> (\<exists>flat. flatten_company_record (\<lambda>t. None)
       (JDict [(''id'', JStr ''1''), (''companyName'', JStr ''Alpha'')]) = Inr flat
      \<and> map_of flat ''address'' = Some JNull
      \<and> map_of flat ''latitude'' = Some JNull
      \<and> map_of flat ''longitude'' = Some JNull)"
proof -
  let ?g = "[(''coordinates'', JList [JFloat (Finite 10), JFloat (Finite 45)])]"
  let ?ro = "[(''streetName'', JStr ''Via Roma 1''), (''town'', JStr ''Verona''),
              (''gps'', JDict ?g), (''region'', JDict [(''description'', JStr ''Veneto'')])]"
  let ?a = "[(''registeredOffice'', JDict ?ro)]"
  let ?r1 = "[(''id'', JStr ''123''), (''companyName'', JStr ''Example SRL''),
              (''address'', JDict ?a), (''employees'', JDict [(''employee'', JInt 12)])]"
  let ?r2 = "[(''id'', JStr ''1''), (''companyName'', JStr ''Alpha'')]"
  have h1: "dict_get ?r1 ''address'' JNull = JDict ?a
      \<and> dict_get ?a ''registeredOffice'' JNull = JDict ?ro
      \<and> dict_get ?ro ''gps'' JNull = JDict ?g
      \<and> dict_get ?g ''coordinates'' JNull = JList [JFloat (Finite 10), JFloat (Finite 45)]
      \<and> well_shaped ?r1"
    by (simp add: dict_get_def well_shaped_def sub_def mapping_or_falsy_def)
  have h2: "map_of ?r2 ''address'' = None \<and> well_shaped ?r2"
    by (simp add: dict_get_def well_shaped_def sub_def mapping_or_falsy_def)
  from flatten_address_fields [where r = ?r1 and a = ?a and ro = ?ro and g = ?g
      and x = "JFloat (Finite 10)" and y = "JFloat (Finite 45)" and isofmt = "\<lambda>t. None"] h1
  have w1: "\<exists>flat. flatten_company_record (\<lambda>t. None) (JDict ?r1) = Inr flat
      \<and> map_of flat ''latitude'' = Some (JFloat (Finite 45))
      \<and> map_of flat ''longitude'' = Some (JFloat (Finite 10))"
    by blast
  from flatten_address_fields [where r = ?r2 and isofmt = "\<lambda>t. None"] h2
  have "\<exists>flat. flatten_company_record (\<lambda>t. None) (JDict ?r2) = Inr flat
         \<and> (\<forall>k \<in> set address_fields. map_of flat k = Some JNull)"
    by blast
  then have w2: "\<exists>flat. flatten_company_record (\<lambda>t. None) (JDict ?r2) = Inr flat
      \<and> map_of flat ''address'' = Some JNull
      \<and> map_of flat ''latitude'' = Some JNull
      \<and> map_of flat ''longitude'' = Some JNull"
    by (auto simp: address_fields_def)
  from w1 w2 show ?thesis by blast
qed

lemma flatten_string_address:
  "flatten_company_record isofmt (JDict [(''id'', JStr ''1''), (''address'', JStr ''Via Roma 1'')])
   = Inl AttributeError"
proof -
  have 1: "py_get (JDict [(''id'', JStr ''1''), (''address'', JStr ''Via Roma 1'')]) ''address''
           = Inr (JStr ''Via Roma 1'')"
    by (simp add: py_get_def dict_get_def)
  have 2: "py_get (py_or (JStr ''Via Roma 1'') (JDict [])) ''registeredOffice'' = Inl AttributeError"
    by (simp add: py_get_def py_or_def)
  show ?thesis
    unfolding flatten_company_record_def
    by (simp only: 1 2 and_then_Inr and_then_Inl)
qed

text \<open>
  C4. The claim does not hold of the code: a record whose \<^verbatim>\<open>address\<close> is a non-empty
  string makes \<^verbatim>\<open>(record.get("address") or {}).get("registeredOffice")\<close> raise
  \<^verbatim>\<open>AttributeError\<close>, and no row is returned.
\<close>

theorem flatten_company_record_raises:
  "flatten_company_record isofmt (JDict [(''id'', JStr ''1''), (''address'', JStr ''Via Roma 1'')])
   = Inl AttributeError"
  by (rule flatten_string_address)

text \<open>
  C7. The claim does not hold of the code for every record without an \<^verbatim>\<open>address\<close> key:
  the record \<^verbatim>\<open>{"employees": "12"}\<close> has none, and flattening it raises
  \<^verbatim>\<open>AttributeError\<close> at \<^verbatim>\<open>employees_block.get("employee")\<close> instead of returning a row
  with \<^verbatim>\<open>None\<close> in the address columns.
\<close>

theorem flatten_no_address_raises:
  "map_of [(''employees'', JStr ''12'')] ''address'' = None
   \<and> flatten_company_record isofmt (JDict [(''employees'', JStr ''12'')]) = Inl AttributeError"
proof -
  have "\<not> well_shaped [(''employees'', JStr ''12'')]"
    by (simp add: well_shaped_def dict_get_def sub_def mapping_or_falsy_def)
  then show ?thesis
    by (simp add: flatten_not_well_shaped)
qed

text \<open>
  C8. The claim does not hold of the code for every sequence of records: exporting the
  one-record sequence \<^verbatim>\<open>[{"id": "1", "address": "Via Roma 1"}]\<close> raises
  \<^verbatim>\<open>AttributeError\<close>, so no sheet is written and no count is returned.
\<close>

theorem export_to_excel_raises:
  "export_to_excel isofmt [JDict [(''id'', JStr ''1''), (''address'', JStr ''Via Roma 1'')]]
   = Inl AttributeError"
  by (simp add: export_to_excel_def flatten_string_address and_then_Inl)

text \<open>
  For records whose nested blocks are objects, falsy or absent, the list comprehension
  of the export returns one flat row per record, in input order, each with the record's
  \<^verbatim>\<open>id\<close>.
\<close>

lemma flatten_all_well_shaped:
  "\<forall>r \<in> set rs. well_shaped r \<Longrightarrow>
   \<exists>flats. flatten_all isofmt (map JDict rs) = Inr flats
     \<and> length flats = length rs
     \<and> (\<forall>i < length rs. map_of (flats ! i) ''id'' = Some (dict_get (rs ! i) ''id'' JNull))"
proof (induction rs)
  case Nil
  show ?case by simp
next
  case (Cons r rs)
  from Cons.prems have "well_shaped r" by simp
  from flatten_well_shaped [OF this, of isofmt] obtain flat where
    flat: "flatten_company_record isofmt (JDict r) = Inr flat"
      "map_of flat ''id'' = Some (dict_get r ''id'' JNull)"
    by blast
  from Cons obtain flats where
    flats: "flatten_all isofmt (map JDict rs) = Inr flats" "length flats = length rs"
      "\<forall>i < length rs. map_of (flats ! i) ''id'' = Some (dict_get (rs ! i) ''id'' JNull)"
    by auto
  have "\<forall>i < length (r # rs).
          map_of ((flat # flats) ! i) ''id'' = Some (dict_get ((r # rs) ! i) ''id'' JNull)"
    using flat(2) flats(3) by (auto simp: nth_Cons split: nat.split)
  then show ?case
    using flat(1) flats(1,2) by (simp add: and_then_Inr)
qed

end
